theory Spec2Isabelle
  imports Main
begin

section \<open>Strings\<close>

text \<open>
  A Python \<open>str\<close> is modelled as a \<^typ>\<open>string\<close>; a character is a code point
  below 256. A value that may be \<open>None\<close> is a \<^typ>\<open>string option\<close>.
\<close>

abbreviation squote :: char where
  "squote \<equiv> CHR 0x27"

abbreviation backslash :: char where
  "backslash \<equiv> CHR 0x5C"

text \<open>
  The character class \<open>\s\<close> of \<open>_find_space = re.compile(r"[\s]").search\<close>, on the
  code points below 256: tab, line feed, vertical tab, form feed, carriage return,
  the four separators 0x1C..0x1F, the space, NEL and the no-break space.
\<close>

definition is_space :: "char \<Rightarrow> bool" where
  "is_space c \<longleftrightarrow>
     c \<in> {CHR 0x09, CHR 0x0A, CHR 0x0B, CHR 0x0C, CHR 0x0D,
          CHR 0x1C, CHR 0x1D, CHR 0x1E, CHR 0x1F, CHR 0x20, CHR 0x85, CHR 0xA0}"

text \<open>\<open>_find_space(value)\<close>: the first match, or \<open>None\<close>.\<close>

definition find_space :: "string \<Rightarrow> char option" where
  "find_space v = find is_space v"

text \<open>\<open>value.replace(old, new)\<close> for a pattern \<open>old\<close> of one character.\<close>

fun str_replace :: "char \<Rightarrow> string \<Rightarrow> string \<Rightarrow> string" where
  "str_replace old new [] = []"
| "str_replace old new (c # cs) =
     (if c = old then new @ str_replace old new cs else c # str_replace old new cs)"

text \<open>\<open>sep.join(parts)\<close>.\<close>

fun join :: "string \<Rightarrow> string list \<Rightarrow> string" where
  "join sep [] = []"
| "join sep [p] = p"
| "join sep (p # q # ps) = p @ sep @ join sep (q # ps)"

text \<open>What \<open>"%s" % v\<close> prints for a value that may be \<open>None\<close>.\<close>

fun py_str :: "string option \<Rightarrow> string" where
  "py_str None = ''None''"
| "py_str (Some s) = s"

section \<open>Connection strings\<close>

text \<open>
  The fields of the parsed arguments that the launcher's own code reads;
  \<open>host\<close>, \<open>port\<close> and \<open>user\<close> are \<open>None\<close> unless given on the command line.
\<close>

record config =
  host :: "string option"
  port :: "string option"
  user :: "string option"
  dbname :: "string option"
  test :: bool

definition quote_conninfo :: "string \<Rightarrow> string" where
  "quote_conninfo v =
     (if v = [] then [squote, squote]
      else if find_space v = None then v
      else [squote]
           @ str_replace squote [backslash, squote]
               (str_replace backslash [backslash, backslash] v)
           @ [squote])"

text \<open>
  One \<open>if config.x: conn_parts.append("x=%s" % quote_conninfo(config.x))\<close>:
  \<open>None\<close> and the empty string are both false in Python.
\<close>

fun conn_part :: "string \<Rightarrow> string option \<Rightarrow> string list" where
  "conn_part key None = []"
| "conn_part key (Some v) = (if v = [] then [] else [key @ ''='' @ quote_conninfo v])"

definition build_conninfo :: "config \<Rightarrow> string" where
  "build_conninfo c =
     (case dbname c of
        Some d \<Rightarrow>
          if d = [] \<or> CHR ''='' \<in> set d then d
          else join '' '' (conn_part ''host'' (host c) @ conn_part ''port'' (port c)
                 @ conn_part ''user'' (user c) @ conn_part ''dbname'' (dbname c))
      | None \<Rightarrow>
          join '' '' (conn_part ''host'' (host c) @ conn_part ''port'' (port c)
                 @ conn_part ''user'' (user c) @ conn_part ''dbname'' (dbname c)))"

subsection \<open>The spec's reading of the quoting rule\<close>

text \<open>
  The spec's words for the composed form, to be compared with \<open>build_conninfo\<close>:
  a value without whitespace is returned unmodified; otherwise it is wrapped in single
  quotes, with a backslash put before every backslash and every single quote.
\<close>

definition spec_quote :: "string \<Rightarrow> string" where
  "spec_quote v =
     (if \<not> (\<exists>ch \<in> set v. is_space ch) then v
      else [squote]
           @ concat (map (\<lambda>ch. if ch = backslash \<or> ch = squote then [backslash, ch] else [ch]) v)
           @ [squote])"

text \<open>
  The pairs \<open>key=value\<close> in the order host, port, user, dbname, without the keys whose
  value is unset. A value is unset when the test \<open>if config.x:\<close> fails: it is \<open>None\<close>
  or the empty string.
\<close>

definition spec_pairs :: "config \<Rightarrow> (string \<times> string) list" where
  "spec_pairs c =
     concat (map (\<lambda>(k, v). case v of None \<Rightarrow> [] | Some s \<Rightarrow> if s = [] then [] else [(k, s)])
       [(''host'', host c), (''port'', port c), (''user'', user c), (''dbname'', dbname c)])"

definition spec_conninfo :: "config \<Rightarrow> string" where
  "spec_conninfo c = join '' '' (map (\<lambda>(k, s). k @ ''='' @ spec_quote s) (spec_pairs c))"

text \<open>
  Modelled from the spec: the parser of a connection-string value is not part of the
  source; the spec only says that parsing the output of the quoting recovers the
  original string. The reader is the one the quoting writes for, by the spec's two
  forms of a value and its escape character. A value that starts with a single quote
  is in the quoted form: it runs to the next single quote that no backslash precedes,
  which has to be its last character. Any other value is bare: it holds no whitespace
  (whitespace ends a value, so a bare text with whitespace is not one value). In both
  forms a backslash stands for the character after it, and a backslash at the end of a
  bare value stands for nothing.
\<close>

fun unescape :: "string \<Rightarrow> string option" where
  "unescape [] = None"
| "unescape [c] = (if c = squote then Some [] else None)"
| "unescape (c # d # cs) =
     (if c = backslash then map_option (Cons d) (unescape cs)
      else if c = squote then None
      else map_option (Cons c) (unescape (d # cs)))"

fun unescape_bare :: "string \<Rightarrow> string option" where
  "unescape_bare [] = Some []"
| "unescape_bare [c] =
     (if is_space c then None else if c = backslash then Some [] else Some [c])"
| "unescape_bare (c # d # cs) =
     (if is_space c then None
      else if c = backslash then map_option (Cons d) (unescape_bare cs)
      else map_option (Cons c) (unescape_bare (d # cs)))"

fun parse_value :: "string \<Rightarrow> string option" where
  "parse_value [] = Some []"
| "parse_value (c # cs) = (if c = squote then unescape cs else unescape_bare (c # cs))"

text \<open>The first character of the value is a single quote.\<close>

fun starts_with_quote :: "string \<Rightarrow> bool" where
  "starts_with_quote [] = False"
| "starts_with_quote (c # cs) = (c = squote)"

section \<open>The mode of the run\<close>

text \<open>
  The exceptions the launcher tells apart. \<open>SystemExit\<close> and \<open>KeyboardInterrupt\<close> are
  not subclasses of \<open>Exception\<close>; \<open>UnrecoverableHookScriptError\<close> and
  \<open>PostgresConnectionError\<close> are subclasses of \<open>BarmanException\<close>, which is one of
  \<open>Exception\<close>. \<open>OtherException\<close> is any other subclass of \<open>Exception\<close>.
\<close>

datatype exn =
    SystemExit nat
  | KeyboardInterrupt
  | UnrecoverableHookScriptError string
  | BarmanException string
  | PostgresConnectionError string
  | OtherException string

fun is_Exception :: "exn \<Rightarrow> bool" where
  "is_Exception (SystemExit n) = False"
| "is_Exception KeyboardInterrupt = False"
| "is_Exception e = True"

fun is_UnrecoverableHookScriptError :: "exn \<Rightarrow> bool" where
  "is_UnrecoverableHookScriptError (UnrecoverableHookScriptError m) = True"
| "is_UnrecoverableHookScriptError e = False"

fun is_PostgresConnectionError :: "exn \<Rightarrow> bool" where
  "is_PostgresConnectionError (PostgresConnectionError m) = True"
| "is_PostgresConnectionError e = False"

text \<open>\<open>force_str(exc)\<close>: the message of an exception.\<close>

fun force_str :: "exn \<Rightarrow> string" where
  "force_str (SystemExit n) = []"
| "force_str KeyboardInterrupt = []"
| "force_str (UnrecoverableHookScriptError m) = m"
| "force_str (BarmanException m) = m"
| "force_str (PostgresConnectionError m) = m"
| "force_str (OtherException m) = m"

text \<open>\<open>os.environ\<close>: \<open>"X" in os.environ\<close> is \<open>env X \<noteq> None\<close>, \<open>os.getenv("X")\<close> is \<open>env X\<close>.\<close>

type_synonym environ = "string \<rightharpoonup> string"

definition is_hook_script :: "environ \<Rightarrow> exn + bool" where
  "is_hook_script env =
     (if env ''BARMAN_HOOK'' \<noteq> None \<and> env ''BARMAN_PHASE'' \<noteq> None then
        if (env ''BARMAN_HOOK'' = Some ''backup_script''
            \<or> env ''BARMAN_HOOK'' = Some ''backup_retry_script'')
           \<and> env ''BARMAN_PHASE'' = Some ''post''
        then Inr True
        else Inl (BarmanException
               (''barman-cloud-backup called as unsupported hook script: ''
                @ py_str (env ''BARMAN_PHASE'') @ ''_'' @ py_str (env ''BARMAN_HOOK'')))
      else Inr False)"

section \<open>The run\<close>

text \<open>
  The calls a run makes to its collaborators, in the order it makes them. A run of
  \<open>main\<close> is the list of its calls and the exception that leaves it, if any.
\<close>

datatype event =
    Mkdtemp
  | Get_cloud_interface
  | Test_connectivity
  | Setup_bucket
  | Is_hook_script
  | New_uploader_barman "string option" "string option"
  | Backup_barman
  | New_postgres string
  | Connect
  | New_uploader_postgres
  | Backup_postgres
  | Close_postgres
  | Close_cloud_interface
  | Logging_error string
  | Logging_debug
  | Rmtree

type_synonym run = "event list \<times> exn option"

text \<open>
  What each collaborator does when the run calls it: the exception it raises, or
  \<open>None\<close> when it returns (\<open>test_connectivity\<close> returns a truth value). The
  collaborators are outside the source, so a run is defined for every such choice.
  \<open>rmtree(tempdir, ignore_errors=True)\<close> raises nothing.
\<close>

record world =
  mkdtemp_r :: "exn option"
  get_cloud_interface_r :: "exn option"
  test_connectivity_r :: "exn + bool"
  setup_bucket_r :: "exn option"
  new_uploader_barman_r :: "exn option"
  backup_barman_r :: "exn option"
  new_postgres_r :: "exn option"
  connect_r :: "exn option"
  new_uploader_postgres_r :: "exn option"
  backup_postgres_r :: "exn option"
  close_postgres_r :: "exn option"
  close_cloud_interface_r :: "exn option"

text \<open>The calls \<open>evs\<close>, then the run \<open>r\<close>.\<close>

fun after :: "event list \<Rightarrow> run \<Rightarrow> run" where
  "after evs (evs', x) = (evs @ evs', x)"

text \<open>
  \<open>with closing(thing): body\<close>: \<open>thing.close()\<close> is called when the body is left, by
  return or by exception; an exception of \<open>close\<close> replaces the one of the body.
\<close>

fun closing :: "event \<Rightarrow> exn option \<Rightarrow> run \<Rightarrow> run" where
  "closing ev close_r (evs, x) =
     (evs @ [ev], case close_r of Some e \<Rightarrow> Some e | None \<Rightarrow> x)"

text \<open>Lines 146 to 164: the branch of a hook script.\<close>

definition hook_script_backup :: "environ \<Rightarrow> world \<Rightarrow> run" where
  "hook_script_backup env w =
     (if env ''BARMAN_BACKUP_DIR'' = None then
        ([], Some (BarmanException ''BARMAN_BACKUP_DIR environment variable not set''))
      else if env ''BARMAN_BACKUP_ID'' = None then
        ([], Some (BarmanException ''BARMAN_BACKUP_ID environment variable not set''))
      else if env ''BARMAN_STATUS'' \<noteq> Some ''DONE'' then
        ([], Some (UnrecoverableHookScriptError
               (''backup in '' @ [squote] @ py_str (env ''BARMAN_BACKUP_DIR'') @ [squote]
                @ '' has status '' @ [squote] @ py_str (env ''BARMAN_STATUS'') @ [squote]
                @ '' (status should be: DONE)'')))
      else
        (case new_uploader_barman_r w of
           Some e \<Rightarrow>
             ([New_uploader_barman (env ''BARMAN_BACKUP_DIR'') (env ''BARMAN_BACKUP_ID'')], Some e)
         | None \<Rightarrow>
             ([New_uploader_barman (env ''BARMAN_BACKUP_DIR'') (env ''BARMAN_BACKUP_ID''),
               Backup_barman], backup_barman_r w)))"

text \<open>Lines 180 to 183: the body of \<open>with closing(postgres)\<close>.\<close>

definition upload_postgres :: "world \<Rightarrow> run" where
  "upload_postgres w =
     (case new_uploader_postgres_r w of
        Some e \<Rightarrow> ([New_uploader_postgres], Some e)
      | None \<Rightarrow> ([New_uploader_postgres, Backup_postgres], backup_postgres_r w))"

text \<open>Lines 166 to 183: the branch of a direct backup.\<close>

definition postgres_backup :: "config \<Rightarrow> world \<Rightarrow> run" where
  "postgres_backup c w =
     (case new_postgres_r w of
        Some e \<Rightarrow> ([New_postgres (build_conninfo c)], Some e)
      | None \<Rightarrow>
          (case connect_r w of
             Some e \<Rightarrow>
               if is_PostgresConnectionError e then
                 ([New_postgres (build_conninfo c), Connect,
                   Logging_error (''Cannot connect to postgres: '' @ force_str e),
                   Logging_debug], Some (SystemExit 1))
               else ([New_postgres (build_conninfo c), Connect], Some e)
           | None \<Rightarrow>
               after [New_postgres (build_conninfo c), Connect]
                 (closing Close_postgres (close_postgres_r w) (upload_postgres w))))"

text \<open>Lines 145 to 183: the call of \<open>__is_hook_script\<close> and the branch it selects.\<close>

definition mode_dispatch :: "config \<Rightarrow> environ \<Rightarrow> world \<Rightarrow> run" where
  "mode_dispatch c env w =
     (case is_hook_script env of
        Inl e \<Rightarrow> ([Is_hook_script], Some e)
      | Inr hook \<Rightarrow>
          after [Is_hook_script]
            (if hook then hook_script_backup env w else postgres_backup c w))"

text \<open>Lines 133 to 183: \<open>with closing(cloud_interface)\<close>.\<close>

definition with_cloud_interface :: "config \<Rightarrow> environ \<Rightarrow> world \<Rightarrow> run" where
  "with_cloud_interface c env w =
     closing Close_cloud_interface (close_cloud_interface_r w)
       (case setup_bucket_r w of
          Some e \<Rightarrow> ([Setup_bucket], Some e)
        | None \<Rightarrow> after [Setup_bucket] (mode_dispatch c env w))"

text \<open>Lines 114 to 183: the body of the \<open>try\<close>.\<close>

definition try_body :: "config \<Rightarrow> environ \<Rightarrow> world \<Rightarrow> run" where
  "try_body c env w =
     (case get_cloud_interface_r w of
        Some e \<Rightarrow> ([Get_cloud_interface], Some e)
      | None \<Rightarrow>
          (case test_connectivity_r w of
             Inl e \<Rightarrow> ([Get_cloud_interface, Test_connectivity], Some e)
           | Inr ok \<Rightarrow>
               if \<not> ok then ([Get_cloud_interface, Test_connectivity], Some (SystemExit 1))
               else if test c then ([Get_cloud_interface, Test_connectivity], Some (SystemExit 0))
               else after [Get_cloud_interface, Test_connectivity]
                      (with_cloud_interface c env w)))"

text \<open>
  Lines 185 to 196: the \<open>except\<close> clauses, tried in their order; an exception that none
  of them catches goes on unchanged.
\<close>

definition except_clauses :: "exn \<Rightarrow> run" where
  "except_clauses e =
     (if e = KeyboardInterrupt then
        ([Logging_error ''Barman cloud backup was interrupted by the user'', Logging_debug],
         Some (SystemExit 1))
      else if is_UnrecoverableHookScriptError e then
        ([Logging_error (''Barman cloud backup exception: '' @ force_str e), Logging_debug],
         Some (SystemExit 63))
      else if is_Exception e then
        ([Logging_error (''Barman cloud backup exception: '' @ force_str e), Logging_debug],
         Some (SystemExit 1))
      else ([], Some e))"

text \<open>
  \<open>main\<close>, from \<open>tempfile.mkdtemp\<close> on, for the parsed arguments \<open>c\<close> (the result of
  \<open>parse_arguments\<close>): the \<open>try\<close>, its \<open>except\<close> clauses and the \<open>finally\<close> that calls
  \<open>rmtree\<close>. A failure of \<open>mkdtemp\<close> is outside the \<open>try\<close>: no directory exists then, and
  the exception leaves \<open>main\<close> as it is. The assignment to \<open>tempfile.tempdir\<close> and the
  dictionary \<open>uploader_kwargs\<close> call no collaborator.
\<close>

definition main :: "config \<Rightarrow> environ \<Rightarrow> world \<Rightarrow> run" where
  "main c env w =
     (case mkdtemp_r w of
        Some e \<Rightarrow> ([Mkdtemp], Some e)
      | None \<Rightarrow>
          (case try_body c env w of
             (evs, None) \<Rightarrow> (Mkdtemp # evs @ [Rmtree], None)
           | (evs, Some e) \<Rightarrow>
               (case except_clauses e of (hevs, x) \<Rightarrow> (Mkdtemp # evs @ hevs @ [Rmtree], x))))"

text \<open>
  The exit status of the process: 0 when \<open>main\<close> returns, the code of a \<open>SystemExit\<close>,
  1 for any other exception that leaves \<open>main\<close>.
\<close>

fun exit_code :: "exn option \<Rightarrow> nat" where
  "exit_code None = 0"
| "exit_code (Some (SystemExit n)) = n"
| "exit_code (Some e) = 1"

section \<open>Properties of runs\<close>

text \<open>\<open>a\<close> is called before the first call of \<open>b\<close>.\<close>

definition precedes :: "event \<Rightarrow> event \<Rightarrow> event list \<Rightarrow> bool" where
  "precedes a b tr \<longleftrightarrow> a \<in> set (takeWhile (\<lambda>x. x \<noteq> b) tr)"

text \<open>
  The run comes to line 145, the call of \<open>__is_hook_script\<close>: the working directory and
  the storage client are created, the destination is reachable, the run is not a test
  of the connectivity, and \<open>setup_bucket\<close> returns.
\<close>

definition reaches_dispatch :: "config \<Rightarrow> world \<Rightarrow> bool" where
  "reaches_dispatch c w \<longleftrightarrow>
     mkdtemp_r w = None \<and> get_cloud_interface_r w = None
     \<and> test_connectivity_r w = Inr True \<and> \<not> test c \<and> setup_bucket_r w = None"

section \<open>Example runs\<close>

text \<open>A run in which every collaborator returns and the destination is reachable.\<close>

definition quiet_world :: world where
  "quiet_world =
     \<lparr>mkdtemp_r = None, get_cloud_interface_r = None, test_connectivity_r = Inr True,
      setup_bucket_r = None, new_uploader_barman_r = None, backup_barman_r = None,
      new_postgres_r = None, connect_r = None, new_uploader_postgres_r = None,
      backup_postgres_r = None, close_postgres_r = None, close_cloud_interface_r = None\<rparr>"

text \<open>The arguments \<open>s3://bucket/path main\<close>: every option has its default.\<close>

definition default_config :: config where
  "default_config =
     \<lparr>host = None, port = None, user = None, dbname = Some ''postgres'', test = False\<rparr>"

text \<open>No variable of the hook interface is set: a run from the command line.\<close>

definition no_environ :: environ where
  "no_environ = Map.empty"

text \<open>The environment of a post-backup hook, for a backup that has failed.\<close>

definition hook_environ :: environ where
  "hook_environ =
     [''BARMAN_HOOK'' \<mapsto> ''backup_script'', ''BARMAN_PHASE'' \<mapsto> ''post'',
      ''BARMAN_BACKUP_DIR'' \<mapsto> ''/srv/barman/main/base/20210101T000000'',
      ''BARMAN_BACKUP_ID'' \<mapsto> ''20210101T000000'',
      ''BARMAN_STATUS'' \<mapsto> ''FAILED'']"

text \<open>The same without \<open>BARMAN_BACKUP_ID\<close>.\<close>

definition hook_environ_no_id :: environ where
  "hook_environ_no_id =
     [''BARMAN_HOOK'' \<mapsto> ''backup_script'', ''BARMAN_PHASE'' \<mapsto> ''post'',
      ''BARMAN_BACKUP_DIR'' \<mapsto> ''/srv/barman/main/base/20210101T000000'',
      ''BARMAN_STATUS'' \<mapsto> ''FAILED'']"

text \<open>The environment of a hook that is not a backup hook.\<close>

definition archive_environ :: environ where
  "archive_environ = [''BARMAN_HOOK'' \<mapsto> ''archive_script'', ''BARMAN_PHASE'' \<mapsto> ''pre'']"

text \<open>Only one of the two markers is set.\<close>

definition hook_only_environ :: environ where
  "hook_only_environ = [''BARMAN_HOOK'' \<mapsto> ''backup_script'']"

text \<open>A value with a single quote, a backslash and a space; a value in single quotes.\<close>

definition awkward_value :: string where
  "awkward_value =
     [CHR ''i'', CHR ''t'', squote, CHR ''s'', CHR '' '', CHR ''a'', backslash, CHR ''b'']"

definition quoted_value :: string where
  "quoted_value = [squote, CHR ''a'', squote]"

text \<open>Values without whitespace: one with a backslash, one with a single quote inside.\<close>

definition backslash_value :: string where
  "backslash_value = [CHR ''a'', backslash, CHR ''b'']"

definition inner_quote_value :: string where
  "inner_quote_value = [CHR ''o'', squote, CHR ''b'', CHR ''r'', CHR ''i'', CHR ''e'', CHR ''n'']"

text \<open>The default arguments with \<open>-t\<close>: a test of the connectivity.\<close>

definition test_config :: config where
  "test_config =
     \<lparr>host = None, port = None, user = None, dbname = Some ''postgres'', test = True\<rparr>"

text \<open>Every collaborator returns, but closing the storage client raises.\<close>

definition close_raises_world :: world where
  "close_raises_world =
     \<lparr>mkdtemp_r = None, get_cloud_interface_r = None, test_connectivity_r = Inr True,
      setup_bucket_r = None, new_uploader_barman_r = None, backup_barman_r = None,
      new_postgres_r = None, connect_r = None, new_uploader_postgres_r = None,
      backup_postgres_r = None, close_postgres_r = None,
      close_cloud_interface_r = Some (UnrecoverableHookScriptError ''close'')\<rparr>"

text \<open>Arguments with a host and a database name that hold a space, and an empty user.\<close>

definition spaced_config :: config where
  "spaced_config =
     \<lparr>host = Some ''pg one'', port = Some ''5432'', user = Some [], dbname = Some ''my db'',
      test = False\<rparr>"

section \<open>Quoting\<close>

lemma str_replace_append:
  "str_replace old new (xs @ ys) = str_replace old new xs @ str_replace old new ys"
  by (induction xs) auto

text \<open>The two replacements, one after the other, escape each character once.\<close>

lemma escape_one_pass:
  "str_replace squote [backslash, squote] (str_replace backslash [backslash, backslash] v)
   = concat (map (\<lambda>ch. if ch = backslash \<or> ch = squote then [backslash, ch] else [ch]) v)"
  by (induction v) (auto simp: str_replace_append)

lemma find_space_iff: "find_space v = None \<longleftrightarrow> \<not> (\<exists>ch \<in> set v. is_space ch)"
  by (auto simp add: find_space_def find_None_iff)

lemma quote_conninfo_spec: "v \<noteq> [] \<Longrightarrow> quote_conninfo v = spec_quote v"
  by (simp add: quote_conninfo_def spec_quote_def find_space_iff escape_one_pass)

lemma unescape_escaped:
  "unescape (concat (map (\<lambda>ch. if ch = backslash \<or> ch = squote then [backslash, ch] else [ch]) v)
             @ [squote]) = Some v"
proof (induction v)
  case Nil
  show ?case by simp
next
  case (Cons c v)
  show ?case
  proof (cases "c = backslash \<or> c = squote")
    case True
    then show ?thesis using Cons by auto
  next
    case False
    obtain d ds where
      "concat (map (\<lambda>ch. if ch = backslash \<or> ch = squote then [backslash, ch] else [ch]) v)
         @ [squote] = d # ds"
      by (cases "concat (map (\<lambda>ch. if ch = backslash \<or> ch = squote then [backslash, ch]
                    else [ch]) v) @ [squote]") auto
    with False Cons show ?thesis by auto
  qed
qed

text \<open>What the parser returns is shorter than a quoted form, and than a bare value with a backslash.\<close>

lemma unescape_shorter: "unescape xs = Some ys \<Longrightarrow> length ys < length xs"
  by (induction xs arbitrary: ys rule: unescape.induct) (auto split: if_splits)

lemma unescape_bare_le: "unescape_bare xs = Some ys \<Longrightarrow> length ys \<le> length xs"
  by (induction xs arbitrary: ys rule: unescape_bare.induct) (auto split: if_splits)

lemma unescape_bare_shorter:
  "backslash \<in> set xs \<Longrightarrow> unescape_bare xs = Some ys \<Longrightarrow> length ys < length xs"
proof (induction xs arbitrary: ys rule: unescape_bare.induct)
  case 1
  then show ?case by simp
next
  case (2 c)
  then show ?case by (auto split: if_splits)
next
  case (3 c d cs)
  show ?case
  proof (cases "c = backslash")
    case True
    with "3.prems" obtain zs where "unescape_bare cs = Some zs" and "ys = d # zs"
      by (auto split: if_splits)
    with unescape_bare_le [of cs zs] show ?thesis by simp
  next
    case False
    with "3.prems" obtain zs where "unescape_bare (d # cs) = Some zs" and "ys = c # zs"
      and "\<not> is_space c" and "backslash \<in> set (d # cs)"
      by (auto split: if_splits)
    with "3.IH"(2) [of zs] False show ?thesis by simp
  qed
qed

lemma unescape_bare_plain:
  "\<forall>c \<in> set xs. \<not> is_space c \<Longrightarrow> backslash \<notin> set xs \<Longrightarrow> unescape_bare xs = Some xs"
  by (induction xs rule: unescape_bare.induct) auto

lemma no_space_unquoted:
  assumes "\<not> (\<exists>ch \<in> set v. is_space ch)" and "v \<noteq> []"
  shows "quote_conninfo v = v"
  using assms by (simp add: quote_conninfo_def find_space_iff)

lemma quoted_form:
  assumes "\<exists>ch \<in> set v. is_space ch"
  shows "quote_conninfo v
         = [squote]
           @ concat (map (\<lambda>ch. if ch = backslash \<or> ch = squote then [backslash, ch] else [ch]) v)
           @ [squote]"
proof -
  from assms have "v \<noteq> []"
    by auto
  with assms show ?thesis
    by (simp add: quote_conninfo_def escape_one_pass find_space_iff)
qed

lemma parse_bare:
  assumes "\<not> (\<exists>ch \<in> set v. is_space ch)"
  shows "parse_value v = Some v \<longleftrightarrow> backslash \<notin> set v \<and> \<not> starts_with_quote v"
proof (cases v)
  case Nil
  then show ?thesis by simp
next
  case (Cons c cs)
  show ?thesis
  proof (cases "c = squote")
    case True
    have "unescape cs \<noteq> Some (c # cs)"
      using unescape_shorter [of cs "c # cs"] by auto
    with True Cons show ?thesis by simp
  next
    case False
    show ?thesis
    proof (cases "backslash \<in> set v")
      case True
      have "unescape_bare v \<noteq> Some v"
        using unescape_bare_shorter [OF True, of v] by auto
      with True False Cons show ?thesis by simp
    next
      case no_backslash: False
      with assms have "unescape_bare v = Some v"
        by (simp add: unescape_bare_plain)
      with no_backslash False Cons show ?thesis by simp
    qed
  qed
qed

text \<open>
  C7, as stated: a value with a single quote or a backslash is quoted so that parsing
  recovers it. The values \<open>'a'\<close> and \<open>a\b\<close> have no whitespace, so \<open>quote_conninfo\<close>
  returns them as they are: the first reads as the quoted form of \<open>a\<close>, the second
  as \<open>ab\<close>.
\<close>

theorem quote_conninfo_unquoted_counterexample:
  "squote \<in> set quoted_value
   \<and> quote_conninfo quoted_value = quoted_value
   \<and> parse_value (quote_conninfo quoted_value) = Some ''a''
   \<and> backslash \<in> set backslash_value
   \<and> quote_conninfo backslash_value = backslash_value
   \<and> parse_value (quote_conninfo backslash_value) = Some ''ab''"
  by (simp add: quoted_value_def backslash_value_def quote_conninfo_def find_space_def
        is_space_def)

text \<open>
  C7, amended: a value that contains whitespace is returned in the quoted form (in
  single quotes, a backslash before each backslash and each single quote), and parsing
  recovers it exactly, whatever single quotes and backslashes it holds. A non-empty
  value without whitespace is returned unmodified, and parsing recovers it exactly
  when it holds no backslash and does not start with a single quote.
\<close>

theorem quote_conninfo_roundtrip:
  "((\<exists>ch \<in> set v. is_space ch) \<longrightarrow>
       quote_conninfo v
         = [squote]
           @ concat (map (\<lambda>ch. if ch = backslash \<or> ch = squote then [backslash, ch] else [ch]) v)
           @ [squote]
       \<and> parse_value (quote_conninfo v) = Some v)
   \<and> (\<not> (\<exists>ch \<in> set v. is_space ch) \<and> v \<noteq> [] \<longrightarrow> quote_conninfo v = v)
   \<and> (\<not> (\<exists>ch \<in> set v. is_space ch) \<longrightarrow>
        (parse_value (quote_conninfo v) = Some v
           \<longleftrightarrow> backslash \<notin> set v \<and> \<not> starts_with_quote v))"
proof (cases "\<exists>ch \<in> set v. is_space ch")
  case True
  from quoted_form [OF True] have "parse_value (quote_conninfo v) = Some v"
    by (simp add: unescape_escaped)
  with True quoted_form [OF True] show ?thesis by simp
next
  case False
  show ?thesis
  proof (cases "v = []")
    case True
    then show ?thesis by (simp add: quote_conninfo_def)
  next
    case nonempty: False
    from no_space_unquoted [OF False nonempty] parse_bare [OF False] False
    show ?thesis by simp
  qed
qed

theorem quote_conninfo_roundtrip_witness:
  "squote \<in> set awkward_value \<and> backslash \<in> set awkward_value
   \<and> quote_conninfo awkward_value
       = [squote, CHR ''i'', CHR ''t'', backslash, squote, CHR ''s'', CHR '' '', CHR ''a'',
          backslash, backslash, CHR ''b'', squote]
   \<and> parse_value (quote_conninfo awkward_value) = Some awkward_value
   \<and> squote \<in> set inner_quote_value
   \<and> quote_conninfo inner_quote_value = inner_quote_value
   \<and> parse_value (quote_conninfo inner_quote_value) = Some inner_quote_value"
proof -
  have sp: "\<exists>ch \<in> set awkward_value. is_space ch"
    by (simp add: awkward_value_def is_space_def)
  have nsp: "\<not> (\<exists>ch \<in> set inner_quote_value. is_space ch)"
    by (simp add: inner_quote_value_def is_space_def)
  have ne: "inner_quote_value \<noteq> []"
    by (simp add: inner_quote_value_def)
  have ok: "backslash \<notin> set inner_quote_value \<and> \<not> starts_with_quote inner_quote_value"
    by (simp add: inner_quote_value_def)
  from quote_conninfo_roundtrip [of awkward_value] sp
  have q: "quote_conninfo awkward_value
         = [squote]
           @ concat (map (\<lambda>ch. if ch = backslash \<or> ch = squote then [backslash, ch] else [ch])
               awkward_value)
           @ [squote]"
    and p: "parse_value (quote_conninfo awkward_value) = Some awkward_value"
    by blast+
  have "[squote]
        @ concat (map (\<lambda>ch. if ch = backslash \<or> ch = squote then [backslash, ch] else [ch])
            awkward_value)
        @ [squote]
       = [squote, CHR ''i'', CHR ''t'', backslash, squote, CHR ''s'', CHR '' '', CHR ''a'',
          backslash, backslash, CHR ''b'', squote]"
    by (simp add: awkward_value_def)
  with q p have "quote_conninfo awkward_value
       = [squote, CHR ''i'', CHR ''t'', backslash, squote, CHR ''s'', CHR '' '', CHR ''a'',
          backslash, backslash, CHR ''b'', squote]
     \<and> parse_value (quote_conninfo awkward_value) = Some awkward_value"
    by simp
  moreover from quote_conninfo_roundtrip [of inner_quote_value] nsp ne ok
  have "quote_conninfo inner_quote_value = inner_quote_value
     \<and> parse_value (quote_conninfo inner_quote_value) = Some inner_quote_value"
    by blast
  moreover have "squote \<in> set awkward_value \<and> backslash \<in> set awkward_value
     \<and> squote \<in> set inner_quote_value"
    by (simp add: awkward_value_def inner_quote_value_def)
  ultimately show ?thesis by blast
qed

section \<open>The connection string\<close>

text \<open>
  C2. When \<open>dbname\<close> is the empty string or contains the character \<open>=\<close>,
  \<open>build_conninfo\<close> returns it unchanged, whatever \<open>host\<close>, \<open>port\<close> and \<open>user\<close> are.
\<close>

theorem build_conninfo_dsn:
  assumes "dbname c = Some d" and "d = [] \<or> CHR ''='' \<in> set d"
  shows "build_conninfo c = d
         \<and> build_conninfo (c\<lparr>host := h, port := p, user := u\<rparr>) = d"
  using assms by (simp add: build_conninfo_def)

theorem build_conninfo_dsn_witness:
  "build_conninfo \<lparr>host = Some ''db1'', port = Some ''5433'', user = None,
                   dbname = Some ''host=pg dbname=app'', test = False\<rparr> = ''host=pg dbname=app''
   \<and> build_conninfo \<lparr>host = None, port = None, user = Some ''barman'',
                   dbname = Some ''host=pg dbname=app'', test = False\<rparr> = ''host=pg dbname=app''"
  using build_conninfo_dsn [where c = "\<lparr>host = Some ''db1'', port = Some ''5433'', user = None,
                   dbname = Some ''host=pg dbname=app'', test = False\<rparr>"
                   and d = "''host=pg dbname=app''" and h = None and p = None
                   and u = "Some ''barman''"]
  by simp

lemma conn_part_spec:
  "conn_part k v = map (\<lambda>(k, s). k @ ''='' @ spec_quote s)
                     (case v of None \<Rightarrow> [] | Some s \<Rightarrow> if s = [] then [] else [(k, s)])"
  by (cases v) (simp_all add: quote_conninfo_spec)

text \<open>
  C8. When \<open>dbname\<close> is not a DSN (it is unset, or it is non-empty and without \<open>=\<close>),
  \<open>build_conninfo\<close> gives the pairs \<open>key=value\<close> in the order host, port, user,
  dbname, without the keys whose value is unset (\<open>None\<close> or empty), each value quoted
  by the rule of the spec: unmodified without whitespace, otherwise in single quotes
  with backslashes and single quotes escaped.
\<close>

theorem build_conninfo_compose:
  assumes "\<forall>d. dbname c = Some d \<longrightarrow> d \<noteq> [] \<and> CHR ''='' \<notin> set d"
  shows "build_conninfo c = spec_conninfo c"
  using assms
  by (simp add: build_conninfo_def spec_conninfo_def spec_pairs_def conn_part_spec
      split: option.splits)

theorem build_conninfo_compose_witness:
  "dbname spaced_config = Some ''my db'' \<and> ''my db'' \<noteq> [] \<and> CHR ''='' \<notin> set ''my db''
   \<and> build_conninfo spaced_config
       = ''host='' @ [squote] @ ''pg one'' @ [squote] @ '' port=5432 dbname=''
         @ [squote] @ ''my db'' @ [squote]"
proof -
  have h: "\<forall>d. dbname spaced_config = Some d \<longrightarrow> d \<noteq> [] \<and> CHR ''='' \<notin> set d"
    by (simp add: spaced_config_def)
  from build_conninfo_compose [OF h] show ?thesis
    by (simp add: spec_conninfo_def spec_pairs_def spec_quote_def is_space_def spaced_config_def)
qed

section \<open>The mode of a run\<close>

lemma quiet_world_fields:
  "mkdtemp_r quiet_world = None"
  "get_cloud_interface_r quiet_world = None"
  "test_connectivity_r quiet_world = Inr True"
  "setup_bucket_r quiet_world = None"
  "new_uploader_barman_r quiet_world = None"
  "backup_barman_r quiet_world = None"
  "new_postgres_r quiet_world = None"
  "connect_r quiet_world = None"
  "new_uploader_postgres_r quiet_world = None"
  "backup_postgres_r quiet_world = None"
  "close_postgres_r quiet_world = None"
  "close_cloud_interface_r quiet_world = None"
  by (simp_all add: quiet_world_def)

lemma hook_environ_values:
  "hook_environ ''BARMAN_HOOK'' = Some ''backup_script''"
  "hook_environ ''BARMAN_PHASE'' = Some ''post''"
  "hook_environ ''BARMAN_BACKUP_DIR'' = Some ''/srv/barman/main/base/20210101T000000''"
  "hook_environ ''BARMAN_BACKUP_ID'' = Some ''20210101T000000''"
  "hook_environ ''BARMAN_STATUS'' = Some ''FAILED''"
  by (simp_all add: hook_environ_def)

lemma hook_environ_no_id_values:
  "hook_environ_no_id ''BARMAN_HOOK'' = Some ''backup_script''"
  "hook_environ_no_id ''BARMAN_PHASE'' = Some ''post''"
  "hook_environ_no_id ''BARMAN_BACKUP_DIR'' = Some ''/srv/barman/main/base/20210101T000000''"
  "hook_environ_no_id ''BARMAN_BACKUP_ID'' = None"
  "hook_environ_no_id ''BARMAN_STATUS'' = Some ''FAILED''"
  by (simp_all add: hook_environ_no_id_def)

lemma archive_environ_values:
  "archive_environ ''BARMAN_HOOK'' = Some ''archive_script''"
  "archive_environ ''BARMAN_PHASE'' = Some ''pre''"
  by (simp_all add: archive_environ_def)

lemma hook_only_environ_values:
  "hook_only_environ ''BARMAN_HOOK'' = Some ''backup_script''"
  "hook_only_environ ''BARMAN_PHASE'' = None"
  by (simp_all add: hook_only_environ_def)

lemma fst_after [simp]: "fst (after evs r) = evs @ fst r"
  by (cases r) simp

lemma snd_after [simp]: "snd (after evs r) = snd r"
  by (cases r) simp

lemma fst_closing [simp]: "fst (closing ev x r) = fst r @ [ev]"
  by (cases r) simp

lemma snd_closing [simp]: "snd (closing ev x r) = (case x of Some e \<Rightarrow> Some e | None \<Rightarrow> snd r)"
  by (cases r) (simp split: option.splits)

lemma fst_main:
  "fst (main c env w) =
     (case mkdtemp_r w of Some e \<Rightarrow> [Mkdtemp]
      | None \<Rightarrow> Mkdtemp # fst (try_body c env w)
          @ (case snd (try_body c env w) of None \<Rightarrow> [] | Some e \<Rightarrow> fst (except_clauses e))
          @ [Rmtree])"
  by (simp add: main_def split: option.splits prod.splits)

lemma snd_main:
  "snd (main c env w) =
     (case mkdtemp_r w of Some e \<Rightarrow> Some e
      | None \<Rightarrow> (case snd (try_body c env w) of None \<Rightarrow> None | Some e \<Rightarrow> snd (except_clauses e)))"
  by (simp add: main_def split: option.splits prod.splits)

lemma except_clauses_logs:
  "set (fst (except_clauses e)) \<subseteq> insert Logging_debug (range Logging_error)"
  by (auto simp: except_clauses_def)

lemma upload_postgres_events:
  "set (fst (upload_postgres w)) \<subseteq> {New_uploader_postgres, Backup_postgres}"
  by (auto simp: upload_postgres_def split: option.splits)

lemma hook_script_backup_events:
  "set (fst (hook_script_backup env w))
     \<subseteq> {New_uploader_barman (env ''BARMAN_BACKUP_DIR'') (env ''BARMAN_BACKUP_ID''), Backup_barman}"
  by (auto simp: hook_script_backup_def split: option.splits)

lemma postgres_backup_events:
  "set (fst (postgres_backup c w))
     \<subseteq> {New_postgres (build_conninfo c), Connect, New_uploader_postgres, Backup_postgres,
         Close_postgres, Logging_debug} \<union> range Logging_error"
  using upload_postgres_events [of w]
  by (auto simp: postgres_backup_def split: option.splits)

lemma postgres_backup_connect:
  "Connect \<in> set (fst (postgres_backup c w)) \<longleftrightarrow> new_postgres_r w = None"
  using upload_postgres_events [of w]
  by (auto simp: postgres_backup_def split: option.splits)

lemma postgres_backup_close:
  "count_list (fst (postgres_backup c w)) Close_postgres
     = (if new_postgres_r w = None \<and> connect_r w = None then 1 else 0)"
proof -
  have "Close_postgres \<notin> set (fst (upload_postgres w))"
    using upload_postgres_events [of w] by auto
  then have "count_list (fst (upload_postgres w)) Close_postgres = 0"
    by (simp add: count_list_0_iff)
  then show ?thesis
    by (simp add: postgres_backup_def split: option.splits)
qed

lemma mode_dispatch_shape:
  "\<exists>rest. fst (mode_dispatch c env w) = Is_hook_script # rest
     \<and> set rest \<subseteq> {New_uploader_barman (env ''BARMAN_BACKUP_DIR'') (env ''BARMAN_BACKUP_ID''), Backup_barman,
         New_postgres (build_conninfo c), Connect, New_uploader_postgres, Backup_postgres,
         Close_postgres, Logging_debug} \<union> range Logging_error"
  using hook_script_backup_events [of env w] postgres_backup_events [of c w]
  by (auto simp: mode_dispatch_def split: sum.splits)

lemma try_body_reaches:
  assumes "reaches_dispatch c w"
  shows "try_body c env w = after [Get_cloud_interface, Test_connectivity]
           (closing Close_cloud_interface (close_cloud_interface_r w)
              (after [Setup_bucket] (mode_dispatch c env w)))"
  using assms by (simp add: reaches_dispatch_def try_body_def with_cloud_interface_def)

lemma try_body_short:
  assumes "\<not> reaches_dispatch c w" and "mkdtemp_r w = None"
  shows "set (fst (try_body c env w))
           \<subseteq> {Get_cloud_interface, Test_connectivity, Setup_bucket, Close_cloud_interface}"
  using assms
  by (auto simp: reaches_dispatch_def try_body_def with_cloud_interface_def
      split: option.splits sum.splits)

lemma handlers_logs:
  "set (case x of None \<Rightarrow> [] | Some e \<Rightarrow> fst (except_clauses e))
     \<subseteq> insert Logging_debug (range Logging_error)"
  using except_clauses_logs by (cases x) auto

lemma main_short:
  assumes "\<not> reaches_dispatch c w"
  shows "set (fst (main c env w))
           \<subseteq> {Mkdtemp, Get_cloud_interface, Test_connectivity, Setup_bucket,
               Close_cloud_interface, Logging_debug, Rmtree} \<union> range Logging_error"
proof (cases "mkdtemp_r w")
  case None
  with assms try_body_short [of c w env] handlers_logs [of "snd (try_body c env w)"]
  show ?thesis by (auto simp: fst_main)
next
  case (Some e)
  then show ?thesis by (simp add: fst_main)
qed

lemma main_reaches:
  assumes "reaches_dispatch c w"
  shows "\<exists>hevs. fst (main c env w)
           = [Mkdtemp, Get_cloud_interface, Test_connectivity, Setup_bucket]
             @ fst (mode_dispatch c env w) @ [Close_cloud_interface] @ hevs @ [Rmtree]
         \<and> set hevs \<subseteq> insert Logging_debug (range Logging_error)"
  using assms handlers_logs [of "snd (try_body c env w)"]
  by (simp add: fst_main try_body_reaches reaches_dispatch_def)

lemma main_connect:
  "Connect \<in> set (fst (main c env w))
     \<longleftrightarrow> reaches_dispatch c w \<and> is_hook_script env = Inr False \<and> new_postgres_r w = None"
proof (cases "reaches_dispatch c w")
  case True
  obtain hevs where tr: "fst (main c env w)
           = [Mkdtemp, Get_cloud_interface, Test_connectivity, Setup_bucket]
             @ fst (mode_dispatch c env w) @ [Close_cloud_interface] @ hevs @ [Rmtree]"
    and hs: "set hevs \<subseteq> insert Logging_debug (range Logging_error)"
    using main_reaches [OF True] by blast
  from hs have "Connect \<notin> set hevs" by auto
  moreover have "Connect \<notin> set (fst (hook_script_backup env w))"
    using hook_script_backup_events [of env w] by auto
  ultimately show ?thesis using True
    by (auto simp: tr mode_dispatch_def postgres_backup_connect split: sum.splits)
next
  case False
  from main_short [OF False] have "Connect \<notin> set (fst (main c env w))"
    by auto
  with False show ?thesis by simp
qed

lemma main_close_postgres:
  "count_list (fst (main c env w)) Close_postgres
     = (if reaches_dispatch c w \<and> is_hook_script env = Inr False
           \<and> new_postgres_r w = None \<and> connect_r w = None then 1 else 0)"
proof (cases "reaches_dispatch c w")
  case True
  obtain hevs where tr: "fst (main c env w)
           = [Mkdtemp, Get_cloud_interface, Test_connectivity, Setup_bucket]
             @ fst (mode_dispatch c env w) @ [Close_cloud_interface] @ hevs @ [Rmtree]"
    and hs: "set hevs \<subseteq> insert Logging_debug (range Logging_error)"
    using main_reaches [OF True] by blast
  from hs have "Close_postgres \<notin> set hevs" by auto
  then have h: "count_list hevs Close_postgres = 0"
    by (simp add: count_list_0_iff)
  have "Close_postgres \<notin> set (fst (hook_script_backup env w))"
    using hook_script_backup_events [of env w] by auto
  then have b: "count_list (fst (hook_script_backup env w)) Close_postgres = 0"
    by (simp add: count_list_0_iff)
  show ?thesis using True h b
    by (simp add: tr mode_dispatch_def postgres_backup_close split: sum.splits)
next
  case False
  from main_short [OF False] have "Close_postgres \<notin> set (fst (main c env w))"
    by auto
  with False show ?thesis by (simp add: count_list_0_iff)
qed

lemma main_rmtree:
  assumes "mkdtemp_r w = None"
  shows "count_list (fst (main c env w)) Rmtree = 1 \<and> last (fst (main c env w)) = Rmtree"
proof -
  have "Rmtree \<notin> set (fst (try_body c env w))"
  proof (cases "reaches_dispatch c w")
    case True
    then show ?thesis
      using mode_dispatch_shape [of c env w]
      by (auto simp: try_body_reaches)
  next
    case False
    then show ?thesis using try_body_short [OF False assms, of env] by auto
  qed
  moreover have "Rmtree \<notin> set (case snd (try_body c env w) of None \<Rightarrow> [] | Some e \<Rightarrow> fst (except_clauses e))"
    using handlers_logs [of "snd (try_body c env w)"] by auto
  ultimately show ?thesis using assms
    by (simp add: fst_main count_list_0_iff)
qed

lemma build_conninfo_default: "build_conninfo default_config = ''dbname=postgres''"
  by (simp add: build_conninfo_def default_config_def quote_conninfo_def find_space_def is_space_def)

lemma is_hook_script_no_environ: "is_hook_script no_environ = Inr False"
  by (simp add: is_hook_script_def no_environ_def)

lemma reaches_dispatch_quiet: "reaches_dispatch default_config quiet_world"
  by (simp add: reaches_dispatch_def default_config_def quiet_world_def)

lemma main_quiet:
  "main default_config no_environ quiet_world =
     ([Mkdtemp, Get_cloud_interface, Test_connectivity, Setup_bucket, Is_hook_script,
       New_postgres ''dbname=postgres'', Connect, New_uploader_postgres, Backup_postgres,
       Close_postgres, Close_cloud_interface, Rmtree], None)"
proof -
  have "mode_dispatch default_config no_environ quiet_world
          = ([Is_hook_script, New_postgres ''dbname=postgres'', Connect, New_uploader_postgres,
              Backup_postgres, Close_postgres], None)"
    by (simp add: mode_dispatch_def is_hook_script_no_environ postgres_backup_def
          upload_postgres_def build_conninfo_default quiet_world_fields)
  then have "try_body default_config no_environ quiet_world
          = ([Get_cloud_interface, Test_connectivity, Setup_bucket, Is_hook_script,
              New_postgres ''dbname=postgres'', Connect, New_uploader_postgres,
              Backup_postgres, Close_postgres, Close_cloud_interface], None)"
    by (simp add: try_body_reaches [OF reaches_dispatch_quiet] quiet_world_fields)
  then show ?thesis
    by (simp add: main_def quiet_world_fields)
qed

lemma main_probe:
  assumes "mkdtemp_r w = None" and "get_cloud_interface_r w = None"
    and "test_connectivity_r w = Inr ok" and "ok \<longrightarrow> test c"
  shows "main c env w = ([Mkdtemp, Get_cloud_interface, Test_connectivity, Rmtree],
                         Some (SystemExit (if ok then 0 else 1)))"
  using assms by (simp add: main_def try_body_def except_clauses_def)

lemma main_dispatch_raises:
  assumes "reaches_dispatch c w" and "close_cloud_interface_r w = None"
    and "snd (mode_dispatch c env w) = Some e"
  shows "snd (main c env w) = snd (except_clauses e)"
  using assms by (simp add: snd_main try_body_reaches reaches_dispatch_def)

text \<open>
  C10. When exactly one of \<open>BARMAN_HOOK\<close> and \<open>BARMAN_PHASE\<close> is set,
  \<open>__is_hook_script\<close> returns false and raises nothing, and the run takes the branch
  of a direct backup: it connects to the database and calls no hook-script upload.
\<close>

theorem single_marker_direct:
  assumes "(env ''BARMAN_HOOK'' = None) \<noteq> (env ''BARMAN_PHASE'' = None)"
  shows "is_hook_script env = Inr False
     \<and> mode_dispatch c env w = after [Is_hook_script] (postgres_backup c w)
     \<and> (reaches_dispatch c w \<longrightarrow>
          New_postgres (build_conninfo c) \<in> set (fst (main c env w))
          \<and> Backup_barman \<notin> set (fst (main c env w)))"
proof -
  have direct: "is_hook_script env = Inr False"
    using assms by (auto simp: is_hook_script_def)
  then have branch: "mode_dispatch c env w = after [Is_hook_script] (postgres_backup c w)"
    by (simp add: mode_dispatch_def)
  have "New_postgres (build_conninfo c) \<in> set (fst (postgres_backup c w))"
    by (simp add: postgres_backup_def split: option.splits)
  moreover have "Backup_barman \<notin> set (fst (postgres_backup c w))"
    using postgres_backup_events [of c w] by auto
  moreover have "\<And>x. Backup_barman \<notin> set (case x of None \<Rightarrow> [] | Some e \<Rightarrow> fst (except_clauses e))"
    using except_clauses_logs by (auto split: option.splits)
  ultimately have "reaches_dispatch c w \<longrightarrow>
          New_postgres (build_conninfo c) \<in> set (fst (main c env w))
          \<and> Backup_barman \<notin> set (fst (main c env w))"
    by (simp add: fst_main try_body_reaches branch reaches_dispatch_def)
  with direct branch show ?thesis by simp
qed

theorem single_marker_direct_witness:
  "(hook_only_environ ''BARMAN_HOOK'' = None) \<noteq> (hook_only_environ ''BARMAN_PHASE'' = None)
   \<and> reaches_dispatch default_config quiet_world
   \<and> is_hook_script hook_only_environ = Inr False
   \<and> New_postgres ''dbname=postgres''
        \<in> set (fst (main default_config hook_only_environ quiet_world))
   \<and> Backup_barman \<notin> set (fst (main default_config hook_only_environ quiet_world))"
proof -
  have one: "(hook_only_environ ''BARMAN_HOOK'' = None) \<noteq> (hook_only_environ ''BARMAN_PHASE'' = None)"
    by (simp add: hook_only_environ_values)
  from single_marker_direct [OF one, of default_config quiet_world] one reaches_dispatch_quiet
  show ?thesis by (simp add: build_conninfo_default)
qed

lemma main_dispatch_closed:
  assumes "reaches_dispatch c w" and "close_cloud_interface_r w = Some e"
  shows "snd (main c env w) = snd (except_clauses e)"
  using assms by (simp add: snd_main try_body_reaches reaches_dispatch_def)

lemma test_config_fields: "test test_config"
  by (simp add: test_config_def)

lemma close_raises_world_reaches: "reaches_dispatch default_config close_raises_world"
  by (simp add: reaches_dispatch_def default_config_def close_raises_world_def)

lemma close_raises_world_close:
  "close_cloud_interface_r close_raises_world = Some (UnrecoverableHookScriptError ''close'')"
  by (simp add: close_raises_world_def)

text \<open>
  C9, as stated: with both markers set and an unsupported pair, the process exits with
  code 1. A test of the connectivity (\<open>-t\<close>) exits with code 0 before
  \<open>__is_hook_script\<close> is called; and when the call is reached and closing the storage
  client raises an \<open>UnrecoverableHookScriptError\<close>, the exit code is 63.
\<close>

theorem unsupported_hook_counterexample:
  "archive_environ ''BARMAN_HOOK'' = Some ''archive_script''
   \<and> archive_environ ''BARMAN_PHASE'' = Some ''pre''
   \<and> Is_hook_script \<notin> set (fst (main test_config archive_environ quiet_world))
   \<and> exit_code (snd (main test_config archive_environ quiet_world)) = 0
   \<and> Is_hook_script \<in> set (fst (main default_config archive_environ close_raises_world))
   \<and> exit_code (snd (main default_config archive_environ close_raises_world)) = 63"
proof -
  have "main test_config archive_environ quiet_world
          = ([Mkdtemp, Get_cloud_interface, Test_connectivity, Rmtree], Some (SystemExit 0))"
    using main_probe [where w = quiet_world and c = test_config and ok = True
        and env = archive_environ]
    by (simp add: quiet_world_fields test_config_fields)
  moreover have "exit_code (snd (main default_config archive_environ close_raises_world)) = 63"
    using main_dispatch_closed [OF close_raises_world_reaches close_raises_world_close,
        of archive_environ]
    by (simp add: except_clauses_def)
  moreover have "Is_hook_script \<in> set (fst (main default_config archive_environ close_raises_world))"
    using main_reaches [OF close_raises_world_reaches, of archive_environ]
      mode_dispatch_shape [of default_config archive_environ close_raises_world]
    by auto
  ultimately show ?thesis
    by (simp add: archive_environ_values)
qed

text \<open>
  C9, amended: when both markers are set and the pair is not one of the two backup
  hooks with the phase \<open>post\<close>, \<open>__is_hook_script\<close> raises a \<open>BarmanException\<close> whose
  message names the phase and the hook it found; and a run that comes to this call
  (the working directory and the storage client are created, the probe succeeds, the
  run is not a test, the bucket is provisioned), and whose storage client, closed on
  the way out, returns or raises \<open>KeyboardInterrupt\<close> or an \<open>Exception\<close> other than
  \<open>UnrecoverableHookScriptError\<close>, exits with code 1.
\<close>

theorem unsupported_hook_exit:
  assumes "env ''BARMAN_HOOK'' = Some h" and "env ''BARMAN_PHASE'' = Some p"
    and "\<not> ((h = ''backup_script'' \<or> h = ''backup_retry_script'') \<and> p = ''post'')"
  shows "is_hook_script env = Inl (BarmanException
               (''barman-cloud-backup called as unsupported hook script: '' @ p @ ''_'' @ h))
      \<and> (reaches_dispatch c w
           \<and> (case close_cloud_interface_r w of
                 None \<Rightarrow> True
               | Some e \<Rightarrow> e = KeyboardInterrupt
                          \<or> is_Exception e \<and> \<not> is_UnrecoverableHookScriptError e)
           \<longrightarrow> exit_code (snd (main c env w)) = 1)"
proof -
  have fails: "is_hook_script env = Inl (BarmanException
               (''barman-cloud-backup called as unsupported hook script: '' @ p @ ''_'' @ h))"
    using assms by (auto simp: is_hook_script_def)
  then have raised: "snd (mode_dispatch c env w) = Some (BarmanException
               (''barman-cloud-backup called as unsupported hook script: '' @ p @ ''_'' @ h))"
    by (simp add: mode_dispatch_def)
  have "exit_code (snd (main c env w)) = 1"
    if reach: "reaches_dispatch c w"
      and cl: "case close_cloud_interface_r w of
                 None \<Rightarrow> True
               | Some e \<Rightarrow> e = KeyboardInterrupt
                          \<or> is_Exception e \<and> \<not> is_UnrecoverableHookScriptError e"
  proof (cases "close_cloud_interface_r w")
    case None
    from main_dispatch_raises [OF reach None raised] show ?thesis
      by (simp add: except_clauses_def)
  next
    case (Some e)
    with cl have "e = KeyboardInterrupt \<or> is_Exception e \<and> \<not> is_UnrecoverableHookScriptError e"
      by simp
    with main_dispatch_closed [OF reach Some] show ?thesis
      by (auto simp: except_clauses_def)
  qed
  with fails show ?thesis by blast
qed

theorem unsupported_hook_exit_witness:
  "archive_environ ''BARMAN_HOOK'' = Some ''archive_script''
   \<and> archive_environ ''BARMAN_PHASE'' = Some ''pre''
   \<and> reaches_dispatch default_config quiet_world \<and> close_cloud_interface_r quiet_world = None
   \<and> is_hook_script archive_environ
        = Inl (BarmanException ''barman-cloud-backup called as unsupported hook script: pre_archive_script'')
   \<and> exit_code (snd (main default_config archive_environ quiet_world)) = 1"
proof -
  have n: "\<not> ((''archive_script'' = ''backup_script'' \<or> ''archive_script'' = ''backup_retry_script'')
             \<and> ''pre'' = ''post'')"
    by simp
  from unsupported_hook_exit [OF archive_environ_values n, of default_config quiet_world] reaches_dispatch_quiet
  show ?thesis by (simp add: archive_environ_values quiet_world_fields)
qed

text \<open>
  C3, as stated: an approved hook script whose status is not \<open>DONE\<close> ends with an
  \<open>UnrecoverableHookScriptError\<close> and exit code 63. Without \<open>BARMAN_BACKUP_ID\<close> the
  run raises a \<open>BarmanException\<close> before it reads the status, and exits with code 1.
\<close>

theorem status_not_done_counterexample:
  "is_hook_script hook_environ_no_id = Inr True
   \<and> hook_environ_no_id ''BARMAN_STATUS'' \<noteq> Some ''DONE''
   \<and> snd (mode_dispatch default_config hook_environ_no_id quiet_world)
       = Some (BarmanException ''BARMAN_BACKUP_ID environment variable not set'')
   \<and> exit_code (snd (main default_config hook_environ_no_id quiet_world)) = 1"
proof -
  have hook: "is_hook_script hook_environ_no_id = Inr True"
    by (simp add: is_hook_script_def hook_environ_no_id_values)
  have raised: "snd (mode_dispatch default_config hook_environ_no_id quiet_world)
       = Some (BarmanException ''BARMAN_BACKUP_ID environment variable not set'')"
    by (simp add: mode_dispatch_def hook hook_script_backup_def hook_environ_no_id_values)
  from main_dispatch_raises [OF reaches_dispatch_quiet quiet_world_fields(12) raised]
  have "exit_code (snd (main default_config hook_environ_no_id quiet_world)) = 1"
    by (simp add: except_clauses_def)
  with hook raised show ?thesis
    by (simp add: hook_environ_no_id_values)
qed

text \<open>
  C3, amended: when the run is an approved hook script, \<open>BARMAN_BACKUP_DIR\<close> and
  \<open>BARMAN_BACKUP_ID\<close> are set and \<open>BARMAN_STATUS\<close> is not \<open>DONE\<close> (or is not set),
  the dispatch raises an \<open>UnrecoverableHookScriptError\<close> whose message holds the
  directory and the status; a run that comes to the dispatch, and whose storage client
  closes without an exception, exits with code 63.
\<close>

theorem status_not_done_exit:
  assumes "is_hook_script env = Inr True"
    and "env ''BARMAN_BACKUP_DIR'' = Some d" and "env ''BARMAN_BACKUP_ID'' = Some i"
    and "env ''BARMAN_STATUS'' \<noteq> Some ''DONE''"
  shows "snd (mode_dispatch c env w) = Some (UnrecoverableHookScriptError
               (''backup in '' @ [squote] @ d @ [squote]
                @ '' has status '' @ [squote] @ py_str (env ''BARMAN_STATUS'') @ [squote]
                @ '' (status should be: DONE)''))
      \<and> (reaches_dispatch c w \<and> close_cloud_interface_r w = None
           \<longrightarrow> exit_code (snd (main c env w)) = 63)"
proof -
  have raised: "snd (mode_dispatch c env w) = Some (UnrecoverableHookScriptError
               (''backup in '' @ [squote] @ d @ [squote]
                @ '' has status '' @ [squote] @ py_str (env ''BARMAN_STATUS'') @ [squote]
                @ '' (status should be: DONE)''))"
    using assms by (simp add: mode_dispatch_def hook_script_backup_def)
  show ?thesis
    using raised main_dispatch_raises [OF _ _ raised]
    by (simp add: except_clauses_def)
qed

theorem status_not_done_exit_witness:
  "is_hook_script hook_environ = Inr True
   \<and> hook_environ ''BARMAN_BACKUP_DIR'' = Some ''/srv/barman/main/base/20210101T000000''
   \<and> hook_environ ''BARMAN_BACKUP_ID'' = Some ''20210101T000000''
   \<and> hook_environ ''BARMAN_STATUS'' \<noteq> Some ''DONE''
   \<and> reaches_dispatch default_config quiet_world
   \<and> close_cloud_interface_r quiet_world = None
   \<and> snd (mode_dispatch default_config hook_environ quiet_world)
       = Some (UnrecoverableHookScriptError
           (''backup in '' @ [squote] @ ''/srv/barman/main/base/20210101T000000'' @ [squote]
            @ '' has status '' @ [squote] @ ''FAILED'' @ [squote] @ '' (status should be: DONE)''))
   \<and> exit_code (snd (main default_config hook_environ quiet_world)) = 63"
proof -
  have hook: "is_hook_script hook_environ = Inr True"
    by (simp add: is_hook_script_def hook_environ_values)
  have not_done: "hook_environ ''BARMAN_STATUS'' \<noteq> Some ''DONE''"
    by (simp add: hook_environ_values)
  from status_not_done_exit [OF hook hook_environ_values(3) hook_environ_values(4) not_done,
      of default_config quiet_world]
    hook not_done reaches_dispatch_quiet
  show ?thesis by (simp add: hook_environ_values quiet_world_fields)
qed

section \<open>The order of the stages\<close>

text \<open>
  C1, as stated: the mode is resolved before the connectivity probe and before the
  bucket is provisioned. In the run of the default arguments where every collaborator
  returns, \<open>test_connectivity\<close> and \<open>setup_bucket\<close> are both called before
  \<open>__is_hook_script\<close>.
\<close>

theorem resolution_before_probe_counterexample:
  "Is_hook_script \<in> set (fst (main default_config no_environ quiet_world))
   \<and> Test_connectivity \<in> set (fst (main default_config no_environ quiet_world))
   \<and> Setup_bucket \<in> set (fst (main default_config no_environ quiet_world))
   \<and> \<not> precedes Is_hook_script Test_connectivity (fst (main default_config no_environ quiet_world))
   \<and> \<not> precedes Is_hook_script Setup_bucket (fst (main default_config no_environ quiet_world))"
  by (simp add: main_quiet precedes_def)

text \<open>
  C1, amended: \<open>__is_hook_script\<close> is called at most once in a run; it is called
  exactly in the runs that come to line 145 (the working directory and the storage
  client are created, the probe succeeds, the run is not a test, the bucket is
  provisioned); and where it is called, the connectivity probe and the provisioning of
  the bucket are called before it.
\<close>

theorem resolution_after_provisioning:
  "count_list (fst (main c env w)) Is_hook_script \<le> 1
   \<and> (Is_hook_script \<in> set (fst (main c env w)) \<longleftrightarrow> reaches_dispatch c w)
   \<and> (Is_hook_script \<in> set (fst (main c env w)) \<longrightarrow>
        precedes Test_connectivity Is_hook_script (fst (main c env w))
        \<and> precedes Setup_bucket Is_hook_script (fst (main c env w)))"
proof (cases "reaches_dispatch c w")
  case True
  obtain rest where rest: "fst (mode_dispatch c env w) = Is_hook_script # rest"
    and rs: "set rest \<subseteq> {New_uploader_barman (env ''BARMAN_BACKUP_DIR'') (env ''BARMAN_BACKUP_ID''),
         Backup_barman, New_postgres (build_conninfo c), Connect, New_uploader_postgres,
         Backup_postgres, Close_postgres, Logging_debug} \<union> range Logging_error"
    using mode_dispatch_shape by blast
  from rs have no_rest: "Is_hook_script \<notin> set rest" by auto
  obtain hevs where tr: "fst (main c env w)
           = [Mkdtemp, Get_cloud_interface, Test_connectivity, Setup_bucket]
             @ fst (mode_dispatch c env w) @ [Close_cloud_interface] @ hevs @ [Rmtree]"
    and hs: "set hevs \<subseteq> insert Logging_debug (range Logging_error)"
    using main_reaches [OF True] by blast
  from hs have no_hevs: "Is_hook_script \<notin> set hevs" by auto
  from no_rest no_hevs have "count_list rest Is_hook_script = 0"
    and "count_list hevs Is_hook_script = 0"
    by (simp_all add: count_list_0_iff)
  with True show ?thesis
    by (simp add: tr rest precedes_def)
next
  case False
  from main_short [OF False] have "Is_hook_script \<notin> set (fst (main c env w))"
    by auto
  with False show ?thesis
    by (simp add: count_list_0_iff)
qed

theorem resolution_after_provisioning_witness:
  "Is_hook_script \<in> set (fst (main default_config no_environ quiet_world))
   \<and> count_list (fst (main default_config no_environ quiet_world)) Is_hook_script \<le> 1
   \<and> precedes Test_connectivity Is_hook_script (fst (main default_config no_environ quiet_world))
   \<and> precedes Setup_bucket Is_hook_script (fst (main default_config no_environ quiet_world))"
  using resolution_after_provisioning [of default_config no_environ quiet_world] reaches_dispatch_quiet
  by simp

text \<open>
  C4. When the run is a test of the connectivity and the probe succeeds, the process
  exits with code 0, and neither \<open>setup_bucket\<close> nor the \<open>backup\<close> of an uploader is
  called.
\<close>

theorem test_only_exit:
  assumes "mkdtemp_r w = None" and "get_cloud_interface_r w = None"
    and "test_connectivity_r w = Inr True" and "test c"
  shows "exit_code (snd (main c env w)) = 0
         \<and> Setup_bucket \<notin> set (fst (main c env w))
         \<and> Backup_barman \<notin> set (fst (main c env w))
         \<and> Backup_postgres \<notin> set (fst (main c env w))"
  using assms by (simp add: main_probe [where ok = True])

theorem test_only_exit_witness:
  "mkdtemp_r quiet_world = None \<and> get_cloud_interface_r quiet_world = None
   \<and> test_connectivity_r quiet_world = Inr True \<and> test (default_config\<lparr>test := True\<rparr>)
   \<and> exit_code (snd (main (default_config\<lparr>test := True\<rparr>) no_environ quiet_world)) = 0
   \<and> Setup_bucket \<notin> set (fst (main (default_config\<lparr>test := True\<rparr>) no_environ quiet_world))
   \<and> Backup_barman \<notin> set (fst (main (default_config\<lparr>test := True\<rparr>) no_environ quiet_world))
   \<and> Backup_postgres \<notin> set (fst (main (default_config\<lparr>test := True\<rparr>) no_environ quiet_world))"
  using test_only_exit [of quiet_world "default_config\<lparr>test := True\<rparr>" no_environ]
  by (simp add: quiet_world_fields)

text \<open>
  C5. When the connectivity probe fails, the process exits with code 1 and
  \<open>setup_bucket\<close> is not called.
\<close>

theorem probe_failure_exit:
  assumes "mkdtemp_r w = None" and "get_cloud_interface_r w = None"
    and "test_connectivity_r w = Inr False"
  shows "exit_code (snd (main c env w)) = 1 \<and> Setup_bucket \<notin> set (fst (main c env w))"
  using assms by (simp add: main_probe [where ok = False])

theorem probe_failure_exit_witness:
  "mkdtemp_r (quiet_world\<lparr>test_connectivity_r := Inr False\<rparr>) = None
   \<and> get_cloud_interface_r (quiet_world\<lparr>test_connectivity_r := Inr False\<rparr>) = None
   \<and> test_connectivity_r (quiet_world\<lparr>test_connectivity_r := Inr False\<rparr>) = Inr False
   \<and> exit_code (snd (main default_config no_environ
         (quiet_world\<lparr>test_connectivity_r := Inr False\<rparr>))) = 1
   \<and> Setup_bucket \<notin> set (fst (main default_config no_environ
         (quiet_world\<lparr>test_connectivity_r := Inr False\<rparr>)))"
  using probe_failure_exit [of "quiet_world\<lparr>test_connectivity_r := Inr False\<rparr>" default_config no_environ]
  by (simp add: quiet_world_def)

section \<open>Teardown\<close>

text \<open>
  C6. In every run that has created its working directory, whatever any collaborator
  raises, \<open>rmtree\<close> (which ignores errors) is called exactly once, as the last call of
  the run; and the connection to the database is closed exactly once when it was
  opened (\<open>connect\<close> was called and returned), and never otherwise.
\<close>

theorem teardown_always:
  assumes "mkdtemp_r w = None"
  shows "count_list (fst (main c env w)) Rmtree = 1 \<and> last (fst (main c env w)) = Rmtree
    \<and> count_list (fst (main c env w)) Close_postgres
        = (if Connect \<in> set (fst (main c env w)) \<and> connect_r w = None then 1 else 0)"
  using main_rmtree [OF assms, of c env]
  by (simp add: main_close_postgres main_connect)

theorem teardown_always_witness:
  "mkdtemp_r (quiet_world\<lparr>backup_postgres_r := Some (OtherException ''upload failed'')\<rparr>) = None
   \<and> connect_r (quiet_world\<lparr>backup_postgres_r := Some (OtherException ''upload failed'')\<rparr>) = None
   \<and> Connect \<in> set (fst (main default_config no_environ
         (quiet_world\<lparr>backup_postgres_r := Some (OtherException ''upload failed'')\<rparr>)))
   \<and> count_list (fst (main default_config no_environ
         (quiet_world\<lparr>backup_postgres_r := Some (OtherException ''upload failed'')\<rparr>))) Rmtree = 1
   \<and> last (fst (main default_config no_environ
         (quiet_world\<lparr>backup_postgres_r := Some (OtherException ''upload failed'')\<rparr>))) = Rmtree
   \<and> count_list (fst (main default_config no_environ
         (quiet_world\<lparr>backup_postgres_r := Some (OtherException ''upload failed'')\<rparr>))) Close_postgres = 1"
proof -
  have mk: "mkdtemp_r (quiet_world\<lparr>backup_postgres_r := Some (OtherException ''upload failed'')\<rparr>) = None"
    by (simp add: quiet_world_fields)
  have co: "Connect \<in> set (fst (main default_config no_environ
         (quiet_world\<lparr>backup_postgres_r := Some (OtherException ''upload failed'')\<rparr>)))"
    by (simp add: main_connect reaches_dispatch_def is_hook_script_no_environ quiet_world_fields
          default_config_def)
  from teardown_always [OF mk, of default_config no_environ] mk co
  show ?thesis by (simp add: quiet_world_fields)
qed

end
